theory Spec2Isabelle
  imports Complex_Main "HOL-Library.List_Lexorder" "HOL-Library.Multiset"
begin

section \<open>Python strings\<close>

text \<open>
  A Python \<open>str\<close> is a sequence of Unicode code points, and \<open>len\<close> counts code points.
  The texts of this program are Russian, so a string is modelled as the list of its code
  points (\<open>1054\<close> is U+041E, the Cyrillic capital O), not as a list of bytes.
  Floats are modelled as reals, except where a claim depends on rounding (see the
  section on the benefit formulas); NaN and overflow are not part of the model.
\<close>

type_synonym ustr = "nat list"

definition is_space :: "nat \<Rightarrow> bool" where
  \<comment> \<open>\<open>str.isspace\<close> on one code point: the characters \<open>str.strip()\<close> removes.\<close>
  "is_space c \<longleftrightarrow>
     (9 \<le> c \<and> c \<le> 13) \<or> (28 \<le> c \<and> c \<le> 32) \<or> c = 133 \<or> c = 160 \<or> c = 5760
     \<or> (8192 \<le> c \<and> c \<le> 8202) \<or> c = 8232 \<or> c = 8233 \<or> c = 8239 \<or> c = 8287
     \<or> c = 12288"

definition lstrip_by :: "(nat \<Rightarrow> bool) \<Rightarrow> ustr \<Rightarrow> ustr" where
  "lstrip_by p s = dropWhile p s"

definition rstrip_by :: "(nat \<Rightarrow> bool) \<Rightarrow> ustr \<Rightarrow> ustr" where
  "rstrip_by p s = rev (dropWhile p (rev s))"

definition py_strip :: "ustr \<Rightarrow> ustr" where
  \<comment> \<open>\<open>s.strip()\<close>\<close>
  "py_strip s = rstrip_by is_space (lstrip_by is_space s)"

definition py_rstrip :: "ustr \<Rightarrow> ustr" where
  \<comment> \<open>\<open>s.rstrip()\<close>\<close>
  "py_rstrip s = rstrip_by is_space s"

definition lower_cp :: "nat \<Rightarrow> nat" where
  \<comment> \<open>Lower-casing of one code point, on the alphabets the program's texts use: ASCII,
      Latin-1 and the Cyrillic block U+0400..U+052F. Other code points are left as they
      are.\<close>
  "lower_cp c =
     (if 65 \<le> c \<and> c \<le> 90 then c + 32
      else if 192 \<le> c \<and> c \<le> 222 \<and> c \<noteq> 215 then c + 32
      else if 1024 \<le> c \<and> c \<le> 1039 then c + 80
      else if 1040 \<le> c \<and> c \<le> 1071 then c + 32
      else if c = 1216 then 1231
      else if 1217 \<le> c \<and> c \<le> 1230 then (if odd c then c + 1 else c)
      else if (1120 \<le> c \<and> c \<le> 1153) \<or> (1162 \<le> c \<and> c \<le> 1215) \<or> (1232 \<le> c \<and> c \<le> 1327)
        then (if even c then c + 1 else c)
      else c)"

definition py_lower :: "ustr \<Rightarrow> ustr" where
  \<comment> \<open>\<open>s.lower()\<close>\<close>
  "py_lower s = map lower_cp s"

section \<open>The anti-spam gate (utils.py)\<close>

text \<open>
  \<open>_last_sent\<close> is a process-wide dict \<open>client_code -> (ts, last_cta, last_product)\<close>.
  \<open>can_send\<close> reads the clock and the dict and may update the dict; the model takes the
  clock reading and the dict as arguments and returns the answer with the new dict.
\<close>

type_synonym sent_store = "int \<rightharpoonup> (real \<times> ustr \<times> ustr)"

definition can_send ::
  "sent_store \<Rightarrow> real \<Rightarrow> int \<Rightarrow> ustr \<Rightarrow> ustr \<Rightarrow> int \<Rightarrow> bool \<times> sent_store" where
  "can_send store now client_code cta product min_hours =
     (case store client_code of
        None \<Rightarrow> (True, store(client_code \<mapsto> (now, cta, product)))
      | Some (ts, last_cta, last_product) \<Rightarrow>
          if now - ts < real_of_int (min_hours * 3600) then (False, store)
          else if py_lower (py_strip cta) = py_lower (py_strip last_cta) then (False, store)
          else (True, store(client_code \<mapsto> (now, cta, product))))"

record call =
  c_now :: real
  c_client :: int
  c_cta :: ustr
  c_product :: ustr
  c_hours :: int

definition do_call :: "sent_store \<Rightarrow> call \<Rightarrow> bool \<times> sent_store" where
  "do_call store c = can_send store (c_now c) (c_client c) (c_cta c) (c_product c) (c_hours c)"

fun run_calls :: "sent_store \<Rightarrow> call list \<Rightarrow> sent_store" where
  "run_calls store [] = store"
| "run_calls store (c # cs) = run_calls (snd (do_call store c)) cs"

fun answers :: "sent_store \<Rightarrow> call list \<Rightarrow> bool list" where
  "answers store [] = []"
| "answers store (c # cs) = fst (do_call store c) # answers (snd (do_call store c)) cs"

definition no_send_to :: "int \<Rightarrow> sent_store \<Rightarrow> call list \<Rightarrow> bool" where
  \<comment> \<open>no call of the run for client \<open>k\<close> was answered True\<close>
  "no_send_to k store cs =
     list_all (\<lambda>(c, a). c_client c = k \<longrightarrow> \<not> a) (zip cs (answers store cs))"

section \<open>Benefit formulas (config.py, rules.py)\<close>

record BenefitConfig =
  travel_cb_rate :: real
  travel_cb_monthly_cap :: real
  premium_base_cb_low :: real
  premium_base_cb_high :: real
  premium_high_balance_kzt :: real
  premium_fee_savings_atm_per_tx :: real
  premium_fee_savings_transfer_per_tx :: real
  premium_cb_monthly_cap :: real
  cc_fav_rate :: real
  cc_online_rate :: real
  cc_cb_monthly_cap :: real
  fx_spread_saving_rate :: real
  cash_loan_need_ratio :: real
  savings_high_rate :: real
  savings_accum_rate :: real
  multi_curr_rate :: real
  invest_util_rate :: real
  gold_util_rate :: real

definition CFG :: BenefitConfig where
  "CFG = \<lparr>
     travel_cb_rate = 0.04,
     travel_cb_monthly_cap = 15000,
     premium_base_cb_low = 0.02,
     premium_base_cb_high = 0.04,
     premium_high_balance_kzt = 2000000,
     premium_fee_savings_atm_per_tx = 300,
     premium_fee_savings_transfer_per_tx = 100,
     premium_cb_monthly_cap = 25000,
     cc_fav_rate = 0.10,
     cc_online_rate = 0.10,
     cc_cb_monthly_cap = 30000,
     fx_spread_saving_rate = 0.005,
     cash_loan_need_ratio = 1.5,
     savings_high_rate = 0.13,
     savings_accum_rate = 0.10,
     multi_curr_rate = 0.07,
     invest_util_rate = 0.003,
     gold_util_rate = 0.002 \<rparr>"

text \<open>
  \<open>NEED_RATIO\<close> is a float that may be \<open>numpy.inf\<close>; it is the one place where the
  program uses an infinite float on purpose, so it gets a type of its own.
\<close>

datatype xfloat = Fin real | PosInf

fun xge :: "xfloat \<Rightarrow> real \<Rightarrow> bool" where
  \<comment> \<open>\<open>x >= r\<close>\<close>
  "xge PosInf r = True"
| "xge (Fin x) r = (r \<le> x)"

definition cap :: "real \<Rightarrow> real \<Rightarrow> real" where
  \<comment> \<open>\<open>_cap\<close>\<close>
  "cap v cap_value = (if v \<le> 0 then 0 else min v cap_value)"

definition benefit_travel :: "real \<Rightarrow> real" where
  "benefit_travel travel_spend =
     cap (travel_spend * travel_cb_rate CFG) (travel_cb_monthly_cap CFG)"

definition benefit_premium :: "real \<Rightarrow> real \<Rightarrow> real \<Rightarrow> int \<Rightarrow> int \<Rightarrow> real" where
  "benefit_premium avg_balance base_spend premium_spend atm_cnt transfer_cnt =
     (let base_rate = (if avg_balance \<ge> premium_high_balance_kzt CFG
                       then premium_base_cb_high CFG else premium_base_cb_low CFG);
          base_cb = base_rate * max base_spend 0;
          boost_cb = 0.04 * max premium_spend 0;
          fees_saved = real_of_int (max atm_cnt 0) * premium_fee_savings_atm_per_tx CFG
                     + real_of_int (max transfer_cnt 0) * premium_fee_savings_transfer_per_tx CFG
      in cap (base_cb + boost_cb) (premium_cb_monthly_cap CFG) + max fees_saved 0)"

definition benefit_credit_card :: "real \<Rightarrow> real \<Rightarrow> real" where
  "benefit_credit_card fav_spend_sum online_spend =
     (let cb = cc_fav_rate CFG * max fav_spend_sum 0 + cc_online_rate CFG * max online_spend 0
      in cap cb (cc_cb_monthly_cap CFG))"

definition benefit_fx :: "real \<Rightarrow> real" where
  "benefit_fx fx_turnover = max fx_turnover 0 * fx_spread_saving_rate CFG"

definition benefit_cash_loan :: "xfloat \<Rightarrow> real \<Rightarrow> real" where
  "benefit_cash_loan need_ratio shortfall_abs =
     (if xge need_ratio (cash_loan_need_ratio CFG) \<and> shortfall_abs > 0
      then 0.01 * shortfall_abs else 0)"

definition benefit_deposit_savings :: "real \<Rightarrow> real" where
  "benefit_deposit_savings free_balance_3m =
     max free_balance_3m 0 * (savings_high_rate CFG / 4)"

definition benefit_deposit_accum :: "real \<Rightarrow> real" where
  "benefit_deposit_accum free_balance_3m =
     max free_balance_3m 0 * (savings_accum_rate CFG / 4)"

definition benefit_deposit_multi :: "real \<Rightarrow> real \<Rightarrow> real" where
  "benefit_deposit_multi free_balance_3m fx_turnover =
     max free_balance_3m 0 * (multi_curr_rate CFG / 4) + 0.001 * max fx_turnover 0"

definition benefit_invest :: "real \<Rightarrow> real" where
  "benefit_invest free_balance_3m = max free_balance_3m 0 * invest_util_rate CFG"

definition benefit_gold :: "real \<Rightarrow> real" where
  "benefit_gold free_balance_3m = max free_balance_3m 0 * gold_util_rate CFG"

text \<open>
  Floats. Sums, products and comparisons of amounts are modelled on the reals: the claims
  about them are about signs and order, which rounding keeps. The one formula whose exact
  double value is claimed, the disposable balance of \<open>compute_features_for_client\<close>, is
  modelled with the rounding of IEEE double arithmetic: \<open>fl x\<close> is the double nearest to
  \<open>x\<close>, ties to the even mantissa, with 53 bits of mantissa and an exponent that is not
  bounded (no overflow to infinity, no subnormal numbers).
\<close>

definition round_even :: "real \<Rightarrow> int" where
  \<comment> \<open>the nearest integer, a tie going to the even one\<close>
  "round_even y =
     (let f = \<lfloor>y\<rfloor>; r = y - of_int f
      in if r < 1 / 2 then f else if 1 / 2 < r then f + 1 else if even f then f else f + 1)"

definition fl :: "real \<Rightarrow> real" where
  "fl x =
     (if x = 0 then 0
      else (let e = \<lfloor>log 2 \<bar>x\<bar>\<rfloor> - 52
            in of_int (round_even (x / 2 powr of_int e)) * 2 powr of_int e))"

section \<open>Feature extraction and scoring (scorer.py, utils.py)\<close>

text \<open>
  A data frame is the list of its rows. A timestamp is a number on the time line; a
  missing one (\<open>NaT\<close>) is \<open>None\<close>, and every comparison with it is false, as in pandas.
  A text cell may be missing (\<open>NaN\<close>) too. Amounts are numbers: the loader has replaced
  every missing amount by 0.
\<close>

type_synonym timestamp = int

record tx_row =
  tx_date :: "timestamp option"
  tx_category :: "ustr option"
  tx_amount :: real

record tr_row =
  tr_date :: "timestamp option"
  tr_type :: "ustr option"
  tr_direction :: "ustr option"
  tr_amount :: real

definition ascii :: "string \<Rightarrow> ustr" where
  \<comment> \<open>the code points of an ASCII literal\<close>
  "ascii s = map of_char s"

definition TRAVEL_CATS :: "ustr set" where
  \<comment> \<open>Puteshestviya, Taksi, Oteli, AZS\<close>
  "TRAVEL_CATS =
     {[1055, 1091, 1090, 1077, 1096, 1077, 1089, 1090, 1074, 1080, 1103],
      [1058, 1072, 1082, 1089, 1080],
      [1054, 1090, 1077, 1083, 1080],
      [1040, 1047, 1057]}"

definition PREMIUM_BOOST_CATS :: "ustr set" where
  \<comment> \<open>Yuvelirnye ukrasheniya, Kosmetika i Parfyumeriya, Kafe i restorany\<close>
  "PREMIUM_BOOST_CATS =
     {[1070, 1074, 1077, 1083, 1080, 1088, 1085, 1099, 1077, 32, 1091, 1082, 1088, 1072, 1096,
       1077, 1085, 1080, 1103],
      [1050, 1086, 1089, 1084, 1077, 1090, 1080, 1082, 1072, 32, 1080, 32, 1055, 1072, 1088,
       1092, 1102, 1084, 1077, 1088, 1080, 1103],
      [1050, 1072, 1092, 1077, 32, 1080, 32, 1088, 1077, 1089, 1090, 1086, 1088, 1072, 1085,
       1099]}"

definition ONLINE_CATS :: "ustr set" where
  \<comment> \<open>Edim doma, Smotrim doma, Igraem doma\<close>
  "ONLINE_CATS =
     {[1045, 1076, 1080, 1084, 32, 1076, 1086, 1084, 1072],
      [1057, 1084, 1086, 1090, 1088, 1080, 1084, 32, 1076, 1086, 1084, 1072],
      [1048, 1075, 1088, 1072, 1077, 1084, 32, 1076, 1086, 1084, 1072]}"

definition in_period :: "timestamp \<Rightarrow> timestamp \<Rightarrow> timestamp option \<Rightarrow> bool" where
  \<comment> \<open>\<open>(date >= start) & (date < end)\<close>\<close>
  "in_period start end d = (case d of None \<Rightarrow> False | Some t \<Rightarrow> start \<le> t \<and> t < end)"

definition isin :: "ustr option \<Rightarrow> ustr set \<Rightarrow> bool" where
  \<comment> \<open>\<open>Series.isin\<close> on one cell, for a collection of strings\<close>
  "isin c S = (case c of None \<Rightarrow> False | Some s \<Rightarrow> s \<in> S)"

definition group_keys :: "tx_row list \<Rightarrow> ustr option list" where
  \<comment> \<open>the group labels of \<open>groupby("category", dropna=False)\<close>: the distinct categories in
      ascending order, the missing one last\<close>
  "group_keys rows =
     map Some (sort (remdups [c. Some c \<leftarrow> map tx_category rows]))
     @ (if None \<in> set (map tx_category rows) then [None] else [])"

definition group_sums :: "tx_row list \<Rightarrow> (ustr option \<times> real) list" where
  \<comment> \<open>\<open>groupby("category", dropna=False)["amount"].sum()\<close>\<close>
  "group_sums rows =
     map (\<lambda>k. (k, sum_list [tx_amount r. r \<leftarrow> rows, tx_category r = k])) (group_keys rows)"

definition sort_desc :: "('a \<times> real) list \<Rightarrow> ('a \<times> real) list" where
  \<comment> \<open>a stable sort by the second component, largest first: what Python's
      \<open>sorted(items, key=lambda kv: kv[1], reverse=True)\<close> returns. Pandas'
      \<open>sort_values(ascending=False)\<close> is modelled by it too; there the order of equal
      sums is not fixed by the library.\<close>
  "sort_desc xs = sort_key (\<lambda>kv. - snd kv) xs"

definition top_categories ::
  "tx_row list \<Rightarrow> nat \<Rightarrow> ustr option list \<times> (ustr option \<times> real) list" where
  "top_categories tx_client topn =
     (let grp = sort_desc (group_sums tx_client)
      in (take topn (map fst grp), grp))"

definition loc :: "(ustr option \<times> real) list \<Rightarrow> ustr option \<Rightarrow> real" where
  \<comment> \<open>\<open>series.loc[label]\<close>, for a label of the index\<close>
  "loc series k = sum_list [v. (k', v) \<leftarrow> series, k' = k]"

record features =
  TOTAL_SPEND :: real
  TRAVEL_SPEND :: real
  PREMIUM_SPEND :: real
  ONLINE_SPEND :: real
  FAV_SPEND_SUM :: real
  ATM_CNT :: int
  TRANSFER_CNT :: int
  NEED_RATIO :: xfloat
  SHORTFALL :: real
  FX_TURNOVER :: real
  FREE_BAL_3M :: real
  FAV_CATS :: "ustr option list"

definition compute_features_for_client ::
  "tx_row list \<Rightarrow> tr_row list \<Rightarrow> real \<Rightarrow> timestamp \<times> timestamp \<Rightarrow> features" where
  "compute_features_for_client tx_client tr_client avg_balance period =
     (let start = fst period; end = snd period;
          txm = filter (\<lambda>r. in_period start end (tx_date r)) tx_client;
          trm = filter (\<lambda>r. in_period start end (tr_date r)) tr_client;
          total_spend = sum_list (map tx_amount txm);
          travel_spend = sum_list [tx_amount r. r \<leftarrow> txm, isin (tx_category r) TRAVEL_CATS];
          premium_spend = sum_list [tx_amount r. r \<leftarrow> txm, isin (tx_category r) PREMIUM_BOOST_CATS];
          online_spend = sum_list [tx_amount r. r \<leftarrow> txm, isin (tx_category r) ONLINE_CATS];
          fav_cats = fst (top_categories txm 3);
          cat_series = snd (top_categories txm 3);
          fav_spend_sum = (if fav_cats \<noteq> [] then sum_list (map (loc cat_series) fav_cats) else 0);
          is_out = (\<lambda>r. tr_direction r = Some (ascii ''out''));
          atm_cnt = int (length [r \<leftarrow> trm. tr_type r = Some (ascii ''atm_withdrawal'') \<and> is_out r]);
          transfer_types = (\<lambda>r. isin (tr_type r)
                               {ascii ''p2p_out'', ascii ''card_out'', ascii ''utilities_out''});
          transfer_cnt = int (length [r \<leftarrow> trm. transfer_types r \<and> is_out r]);
          inflows = sum_list [tr_amount r. r \<leftarrow> trm, tr_direction r = Some (ascii ''in'')];
          outflows = sum_list [tr_amount r. r \<leftarrow> trm, is_out r];
          need_ratio = (if inflows > 0 then Fin (outflows / inflows) else PosInf);
          shortfall_abs = max 0 (outflows - inflows);
          fx_turnover = sum_list [\<bar>tr_amount r\<bar>. r \<leftarrow> trm,
                                    isin (tr_type r) {ascii ''fx_buy'', ascii ''fx_sell''}];
          free_balance_3m = fl (fl (fl avg_balance * 3) / 12)
      in \<lparr> TOTAL_SPEND = total_spend,
           TRAVEL_SPEND = travel_spend,
           PREMIUM_SPEND = premium_spend,
           ONLINE_SPEND = online_spend,
           FAV_SPEND_SUM = fav_spend_sum,
           ATM_CNT = atm_cnt,
           TRANSFER_CNT = transfer_cnt,
           NEED_RATIO = need_ratio,
           SHORTFALL = shortfall_abs,
           FX_TURNOVER = fx_turnover,
           FREE_BAL_3M = free_balance_3m,
           FAV_CATS = fav_cats \<rparr>)"

text \<open>The catalogue: the keys of the \<open>scores\<close> dict, in the order the dict is built.\<close>

definition P_travel :: ustr where
  \<comment> \<open>Karta dlya puteshestvij (travel card)\<close>
  "P_travel =
     [1050, 1072, 1088, 1090, 1072, 32, 1076, 1083, 1103, 32, 1087, 1091, 1090, 1077, 1096,
      1077, 1089, 1090, 1074, 1080, 1081]"

definition P_premium :: ustr where
  \<comment> \<open>Premial'naya karta (premium card)\<close>
  "P_premium =
     [1055, 1088, 1077, 1084, 1080, 1072, 1083, 1100, 1085, 1072, 1103, 32, 1082, 1072,
      1088, 1090, 1072]"

definition P_credit :: ustr where
  \<comment> \<open>Kreditnaya karta (credit card)\<close>
  "P_credit =
     [1050, 1088, 1077, 1076, 1080, 1090, 1085, 1072, 1103, 32, 1082, 1072, 1088, 1090,
      1072]"

definition P_fx :: ustr where
  \<comment> \<open>Obmen valyut (currency exchange)\<close>
  "P_fx =
     [1054, 1073, 1084, 1077, 1085, 32, 1074, 1072, 1083, 1102, 1090]"

definition P_cash_loan :: ustr where
  \<comment> \<open>Kredit nalichnymi (cash loan)\<close>
  "P_cash_loan =
     [1050, 1088, 1077, 1076, 1080, 1090, 32, 1085, 1072, 1083, 1080, 1095, 1085, 1099,
      1084, 1080]"

definition P_dep_multi :: ustr where
  \<comment> \<open>Depozit mul'tivalyutnyj (multi-currency deposit)\<close>
  "P_dep_multi =
     [1044, 1077, 1087, 1086, 1079, 1080, 1090, 32, 1084, 1091, 1083, 1100, 1090, 1080,
      1074, 1072, 1083, 1102, 1090, 1085, 1099, 1081]"

definition P_dep_savings :: ustr where
  \<comment> \<open>Depozit sberegatel'nyj (s <<zamorozkoj>>) (savings deposit, frozen)\<close>
  "P_dep_savings =
     [1044, 1077, 1087, 1086, 1079, 1080, 1090, 32, 1089, 1073, 1077, 1088, 1077, 1075,
      1072, 1090, 1077, 1083, 1100, 1085, 1099, 1081, 32, 40, 1089, 32, 171, 1079, 1072,
      1084, 1086, 1088, 1086, 1079, 1082, 1086, 1081, 187, 41]"

definition P_dep_accum :: ustr where
  \<comment> \<open>Depozit nakopitel'nyj (accumulating deposit)\<close>
  "P_dep_accum =
     [1044, 1077, 1087, 1086, 1079, 1080, 1090, 32, 1085, 1072, 1082, 1086, 1087, 1080,
      1090, 1077, 1083, 1100, 1085, 1099, 1081]"

definition P_invest :: ustr where
  \<comment> \<open>Investicii (brokerskij schyot) (brokerage account)\<close>
  "P_invest =
     [1048, 1085, 1074, 1077, 1089, 1090, 1080, 1094, 1080, 1080, 32, 40, 1073, 1088, 1086,
      1082, 1077, 1088, 1089, 1082, 1080, 1081, 32, 1089, 1095, 1105, 1090, 41]"

definition P_gold :: ustr where
  \<comment> \<open>Zolotye slitki (gold bars)\<close>
  "P_gold =
     [1047, 1086, 1083, 1086, 1090, 1099, 1077, 32, 1089, 1083, 1080, 1090, 1082, 1080]"

definition product_scores :: "features \<Rightarrow> real \<Rightarrow> (ustr \<times> real) list" where
  \<comment> \<open>the dict \<open>scores\<close> of \<open>score_products\<close>, as its items in insertion order; \<open>feats\<close> is
      a dict with all the keys \<open>compute_features_for_client\<close> sets\<close>
  "product_scores feats avg_balance =
     [(P_travel, benefit_travel (TRAVEL_SPEND feats)),
      (P_premium, benefit_premium avg_balance (TOTAL_SPEND feats) (PREMIUM_SPEND feats)
                    (ATM_CNT feats) (TRANSFER_CNT feats)),
      (P_credit, benefit_credit_card (FAV_SPEND_SUM feats) (ONLINE_SPEND feats)),
      (P_fx, benefit_fx (FX_TURNOVER feats)),
      (P_cash_loan, benefit_cash_loan (NEED_RATIO feats) (SHORTFALL feats)),
      (P_dep_multi, benefit_deposit_multi (FREE_BAL_3M feats) (FX_TURNOVER feats)),
      (P_dep_savings, benefit_deposit_savings (FREE_BAL_3M feats)),
      (P_dep_accum, benefit_deposit_accum (FREE_BAL_3M feats)),
      (P_invest, benefit_invest (FREE_BAL_3M feats)),
      (P_gold, benefit_gold (FREE_BAL_3M feats))]"

definition score_products ::
  "features \<Rightarrow> real \<Rightarrow> ustr option \<times> (ustr \<times> real) list \<times> (ustr \<times> real) list" where
  "score_products feats avg_balance =
     (let scores = product_scores feats avg_balance;
          top4 = take 4 (sort_desc scores);
          best = (case top4 of [] \<Rightarrow> None | kv # _ \<Rightarrow> Some (fst kv))
      in (best, top4, scores))"

definition PRODUCTS :: "ustr list" where
  "PRODUCTS = [P_travel, P_premium, P_credit, P_fx, P_cash_loan, P_dep_multi, P_dep_savings,
     P_dep_accum, P_invest, P_gold]"

section \<open>Ingestion: amounts, dates, client codes (utils.py, build_data.py)\<close>

text \<open>
  The regular expressions of the program are matched on \<open>str\<close>, so \<open>\b\<close> and \<open>\w\<close> follow
  the Unicode tables. The model knows the letters and digits of ASCII, Latin-1 and the
  Cyrillic block; every other code point counts as a non-word character, which is right
  for the punctuation and currency signs of the program's texts and wrong for the letters
  of other scripts. \<open>\d\<close> is modelled by the ASCII digits.
\<close>

definition is_digit :: "nat \<Rightarrow> bool" where
  "is_digit c \<longleftrightarrow> 48 \<le> c \<and> c \<le> 57"

definition is_word :: "nat \<Rightarrow> bool" where
  \<comment> \<open>\<open>\w\<close>: \<open>str.isalnum\<close> or the underscore\<close>
  "is_word c \<longleftrightarrow>
     is_digit c \<or> (65 \<le> c \<and> c \<le> 90) \<or> c = 95 \<or> (97 \<le> c \<and> c \<le> 122)
     \<or> c = 170 \<or> c = 178 \<or> c = 179 \<or> c = 181 \<or> c = 185 \<or> c = 186
     \<or> (188 \<le> c \<and> c \<le> 190) \<or> (192 \<le> c \<and> c \<le> 214) \<or> (216 \<le> c \<and> c \<le> 246)
     \<or> (248 \<le> c \<and> c \<le> 255)
     \<or> (1024 \<le> c \<and> c \<le> 1153) \<or> (1162 \<le> c \<and> c \<le> 1327)"

definition word_boundary :: "ustr \<Rightarrow> nat \<Rightarrow> bool" where
  \<comment> \<open>\<open>\b\<close> at position \<open>i\<close> of \<open>s\<close>: exactly one of the characters before and after the
      position is a word character; outside the string there is none\<close>
  "word_boundary s i \<longleftrightarrow>
     (0 < i \<and> i \<le> length s \<and> is_word (s ! (i - 1))) \<noteq> (i < length s \<and> is_word (s ! i))"

definition digits_at :: "ustr \<Rightarrow> nat \<Rightarrow> nat \<Rightarrow> bool" where
  \<comment> \<open>\<open>n\<close> digits stand at positions \<open>i, ..., i + n - 1\<close>\<close>
  "digits_at s i n \<longleftrightarrow> i + n \<le> length s \<and> list_all is_digit (take n (drop i s))"

definition char_at :: "ustr \<Rightarrow> nat \<Rightarrow> nat \<Rightarrow> bool" where
  "char_at s i c \<longleftrightarrow> i < length s \<and> s ! i = c"

definition dmy_at :: "ustr \<Rightarrow> nat \<Rightarrow> bool" where
  \<comment> \<open>the pattern \<open>\b\d{1,2}[.]\d{1,2}[.]\d{2,4}\b\<close> matches at position \<open>i\<close>, for some
      choice of the three repetition counts\<close>
  "dmy_at s i \<longleftrightarrow>
     word_boundary s i \<and>
     list_ex (\<lambda>a. list_ex (\<lambda>b. list_ex (\<lambda>c.
         digits_at s i a \<and> char_at s (i + a) 46 \<and>
         digits_at s (i + a + 1) b \<and> char_at s (i + a + 1 + b) 46 \<and>
         digits_at s (i + a + 1 + b + 1) c \<and>
         word_boundary s (i + a + 1 + b + 1 + c))
       [2, 3, 4]) [1, 2]) [1, 2]"

definition contains_dmy :: "ustr \<Rightarrow> bool" where
  \<comment> \<open>\<open>str.contains\<close> with that pattern, on one cell\<close>
  "contains_dmy s = list_ex (dmy_at s) [0..<length s]"

definition mean :: "bool list \<Rightarrow> real option" where
  \<comment> \<open>\<open>Series.mean()\<close> of a boolean series; the mean of an empty series is NaN\<close>
  "mean bs = (if bs = [] then None else Some (real (length (filter id bs)) / real (length bs)))"

definition gt_nan :: "real option \<Rightarrow> real \<Rightarrow> bool" where
  \<comment> \<open>\<open>m > r\<close>, false for NaN\<close>
  "gt_nan m r = (case m of None \<Rightarrow> False | Some x \<Rightarrow> r < x)"

definition ge_nan :: "real option \<Rightarrow> real \<Rightarrow> bool" where
  \<comment> \<open>\<open>m >= r\<close>, false for NaN\<close>
  "ge_nan m r = (case m of None \<Rightarrow> False | Some x \<Rightarrow> r \<le> x)"

text \<open>
  \<open>pandas.to_datetime(s, errors="coerce", dayfirst=...)\<close> is not code of this program:
  the date parsers take it as the parameter \<open>to_datetime\<close>, a function from the
  \<open>dayfirst\<close> flag and the column of strings to the column of timestamps, \<open>None\<close> for
  \<open>NaT\<close>. The cells have been through \<open>astype(str)\<close>: they are strings.
\<close>

type_synonym datetime_parser = "bool \<Rightarrow> ustr list \<Rightarrow> timestamp option list"

definition to_datetime_safe :: "datetime_parser \<Rightarrow> ustr list \<Rightarrow> timestamp option list" where
  \<comment> \<open>\<open>_to_datetime_safe\<close> (build_data.py)\<close>
  "to_datetime_safe to_datetime s =
     (let series = to_datetime False s
      in if gt_nan (mean (map (\<lambda>d. d = None) series)) 0.5
            \<and> gt_nan (mean (map contains_dmy s)) 0.3
         then to_datetime True s
         else series)"

definition parse_dates_series :: "datetime_parser \<Rightarrow> ustr list \<Rightarrow> timestamp option list" where
  \<comment> \<open>\<open>_parse_dates_series\<close> (utils.py)\<close>
  "parse_dates_series to_datetime s =
     (if ge_nan (mean (map contains_dmy s)) 0.5
      then to_datetime True s
      else to_datetime False s)"

text \<open>
  Amounts. After the four replacements a cell holds only digits, dots and minus signs.
  \<open>to_numeric\<close> models \<open>pandas.to_numeric(..., errors="coerce")\<close> on such strings: an
  optional minus sign, then digits with at most one dot and at least one digit; anything
  else is NaN (\<open>None\<close>).
\<close>

definition digits_val :: "ustr \<Rightarrow> nat" where
  "digits_val ds = fold (\<lambda>c n. 10 * n + (c - 48)) ds 0"

definition parse_unsigned :: "ustr \<Rightarrow> real option" where
  "parse_unsigned s =
     (let ip = takeWhile is_digit s; rest = dropWhile is_digit s
      in case rest of
           [] \<Rightarrow> if ip = [] then None else Some (real (digits_val ip))
         | c # fp \<Rightarrow>
             if c = 46 \<and> list_all is_digit fp \<and> (ip \<noteq> [] \<or> fp \<noteq> [])
             then Some (real (digits_val ip) + real (digits_val fp) / 10 ^ length fp)
             else None)"

definition to_numeric :: "ustr \<Rightarrow> real option" where
  "to_numeric s =
     (case s of
        [] \<Rightarrow> None
      | c # r \<Rightarrow> if c = 45 then map_option uminus (parse_unsigned r) else parse_unsigned s)"

definition amount_clean :: "ustr \<Rightarrow> ustr" where
  \<comment> \<open>the chain \<open>.str.replace(NBSP, "").str.replace(" ", "").str.replace(",", ".")\<close> and
      the removal of every character outside \<open>[0-9.\-]\<close>\<close>
  "amount_clean s =
     filter (\<lambda>c. is_digit c \<or> c = 46 \<or> c = 45)
       (map (\<lambda>c. if c = 44 then 46 else c)
         (filter (\<lambda>c. c \<noteq> 32)
           (filter (\<lambda>c. c \<noteq> 160) s)))"

definition fillna0 :: "real option \<Rightarrow> real" where
  \<comment> \<open>\<open>fillna(0.0)\<close> on one value\<close>
  "fillna0 v = (case v of None \<Rightarrow> 0 | Some x \<Rightarrow> x)"

definition parse_amount_series :: "ustr list \<Rightarrow> real list" where
  \<comment> \<open>\<open>_parse_amount_series\<close> (utils.py)\<close>
  "parse_amount_series s = map fillna0 (map to_numeric (map amount_clean s))"

definition to_amount_safe :: "ustr list \<Rightarrow> real list" where
  \<comment> \<open>\<open>_to_amount_safe\<close> (build_data.py)\<close>
  "to_amount_safe s = map fillna0 (map to_numeric (map amount_clean s))"

text \<open>
  Client codes. \<open>pandas.to_numeric\<close> on the raw identifier column is the parameter \<open>num\<close>
  (the raw cells are arbitrary strings). \<open>astype("Int64")\<close> keeps NaN as the missing value
  and raises \<open>TypeError\<close> when a number of the column is not whole.
\<close>

datatype py_error = TypeError

definition astype_Int64 :: "real option list \<Rightarrow> py_error + int option list" where
  "astype_Int64 vals =
     (if list_ex (\<lambda>v. case v of None \<Rightarrow> False | Some x \<Rightarrow> real_of_int \<lfloor>x\<rfloor> \<noteq> x) vals
      then Inl TypeError
      else Inr (map (map_option floor) vals))"

definition cast_client_code :: "(ustr \<Rightarrow> real option) \<Rightarrow> ustr list \<Rightarrow> py_error + int option list" where
  \<comment> \<open>\<open>_cast_client_code\<close> (build_data.py)\<close>
  "cast_client_code num s = astype_Int64 (map num s)"

definition to_int64_nullable :: "(ustr \<Rightarrow> real option) \<Rightarrow> ustr list \<Rightarrow> py_error + int option list" where
  \<comment> \<open>\<open>_to_int64_nullable\<close> (utils.py)\<close>
  "to_int64_nullable num s = astype_Int64 (map num s)"

text \<open>
  A raw table has its columns resolved already (\<open>coalesce_col\<close>); a row keeps the date, the
  amount and the client code as the strings of the file, and the remaining columns
  (category and currency, or type, direction and currency) as they are. The canonical row
  has the three cells typed.
\<close>

record 'a raw_row =
  raw_date :: ustr
  raw_amount :: ustr
  raw_client_code :: ustr
  raw_rest :: 'a

record 'a canon_row =
  date :: "timestamp option"
  amount :: real
  client_code :: "int option"
  rest :: 'a

definition assemble ::
  "'a raw_row list \<Rightarrow> timestamp option list \<Rightarrow> real list \<Rightarrow> int option list \<Rightarrow> 'a canon_row list" where
  \<comment> \<open>the frame with the three columns replaced\<close>
  "assemble rows dates amounts codes =
     map (\<lambda>(r, d, a, c). \<lparr> date = d, amount = a, client_code = c, rest = raw_rest r \<rparr>)
       (zip rows (zip dates (zip amounts codes)))"

definition dropna_client_code :: "'a canon_row list \<Rightarrow> 'a canon_row list" where
  \<comment> \<open>\<open>dropna(subset=["client_code"])\<close>\<close>
  "dropna_client_code rows = filter (\<lambda>r. client_code r \<noteq> None) rows"

definition build_part ::
  "datetime_parser \<Rightarrow> (ustr \<Rightarrow> real option) \<Rightarrow> 'a raw_row list \<Rightarrow> py_error + 'a canon_row list" where
  \<comment> \<open>the body of the loop of \<open>main\<close> (build_data.py) for one file, the same for a table of
      transactions and a table of transfers: the three casts, then the selection of the
      canonical columns and \<open>dropna\<close>\<close>
  "build_part to_datetime num df =
     (let dates = to_datetime_safe to_datetime (map raw_date df);
          amounts = to_amount_safe (map raw_amount df)
      in case cast_client_code num (map raw_client_code df) of
           Inl e \<Rightarrow> Inl e
         | Inr codes \<Rightarrow> Inr (dropna_client_code (assemble df dates amounts codes)))"

definition read_table ::
  "datetime_parser \<Rightarrow> (ustr \<Rightarrow> real option) \<Rightarrow> 'a raw_row list \<Rightarrow> py_error + 'a canon_row list" where
  \<comment> \<open>what \<open>read_data\<close> (utils.py) does to the table of transactions and to the table of
      transfers: the three casts and the renaming of the columns\<close>
  "read_table to_datetime num df =
     (let dates = parse_dates_series to_datetime (map raw_date df);
          amounts = parse_amount_series (map raw_amount df)
      in case to_int64_nullable num (map raw_client_code df) of
           Inl e \<Rightarrow> Inl e
         | Inr codes \<Rightarrow> Inr (assemble df dates amounts codes))"

text \<open>
  An instance of the library parser for the examples: it reads a string of three dotted
  groups of digits as day, month, year with \<open>dayfirst\<close> and as month, day, year without,
  and gives \<open>NaT\<close> when the month is not in 1..12 or the day not in 1..31, or the
  string has another shape. The timestamp of a date is the number \<open>yyyymmdd\<close>.
\<close>

definition split_dots :: "ustr \<Rightarrow> ustr list" where
  "split_dots s = foldr (\<lambda>c acc. if c = 46 then [] # acc else (c # hd acc) # tl acc) s [[]]"

definition read_dotted :: "bool \<Rightarrow> ustr \<Rightarrow> timestamp option" where
  "read_dotted dayfirst s =
     (case split_dots s of
        [a, b, y] \<Rightarrow>
          if a \<noteq> [] \<and> b \<noteq> [] \<and> y \<noteq> [] \<and> list_all is_digit (a @ b @ y) then
            (let d = (if dayfirst then digits_val a else digits_val b);
                 m = (if dayfirst then digits_val b else digits_val a)
             in if 1 \<le> m \<and> m \<le> 12 \<and> 1 \<le> d \<and> d \<le> 31
                then Some (int (digits_val y * 10000 + m * 100 + d)) else None)
          else None
      | _ \<Rightarrow> None)"

definition dotted_parser :: datetime_parser where
  "dotted_parser dayfirst s = map (read_dotted dayfirst) s"

section \<open>Properties of the anti-spam gate\<close>

lemma do_call_other:
  "c_client c \<noteq> k \<Longrightarrow> snd (do_call store c) k = store k"
  by (auto simp: do_call_def can_send_def split: option.splits prod.splits)

lemma do_call_refused:
  "\<not> fst (do_call store c) \<Longrightarrow> snd (do_call store c) = store"
  by (auto simp: do_call_def can_send_def split: option.splits prod.splits if_splits)

lemma do_call_stamp:
  assumes "store k = Some (ts, x, p)" and "t0 \<le> ts" and "t0 \<le> c_now c"
  shows "\<exists>ts' x' p'. snd (do_call store c) k = Some (ts', x', p') \<and> t0 \<le> ts'"
  using assms
  by (auto simp: do_call_def can_send_def split: option.splits prod.splits)

lemma run_calls_stamp:
  assumes "store k = Some (ts, x, p)" and "t0 \<le> ts" and "\<forall>c \<in> set cs. t0 \<le> c_now c"
  shows "\<exists>ts' x' p'. run_calls store cs k = Some (ts', x', p') \<and> t0 \<le> ts'"
  using assms
proof (induction cs arbitrary: store ts x p)
  case Nil
  then show ?case by simp
next
  case (Cons c cs)
  have "t0 \<le> c_now c" using Cons.prems(3) by simp
  with Cons.prems(1,2) have "\<exists>ts' x' p'. snd (do_call store c) k = Some (ts', x', p') \<and> t0 \<le> ts'"
    by (rule do_call_stamp)
  then obtain ts' x' p' where s: "snd (do_call store c) k = Some (ts', x', p')" and t: "t0 \<le> ts'"
    by blast
  have "\<forall>c \<in> set cs. t0 \<le> c_now c" using Cons.prems(3) by simp
  with Cons.IH[of "snd (do_call store c)" ts' x' p'] s t show ?case by simp
qed

lemma run_calls_kept:
  assumes "no_send_to k store cs"
  shows "run_calls store cs k = store k"
  using assms
proof (induction cs arbitrary: store)
  case Nil
  then show ?case by simp
next
  case (Cons c cs)
  have rest: "no_send_to k (snd (do_call store c)) cs"
    using Cons.prems by (simp add: no_send_to_def)
  have "snd (do_call store c) k = store k"
  proof (cases "c_client c = k")
    case True
    then have "\<not> fst (do_call store c)" using Cons.prems by (simp add: no_send_to_def)
    then show ?thesis by (simp add: do_call_refused)
  next
    case False
    then show ?thesis by (rule do_call_other)
  qed
  with Cons.IH[OF rest] show ?case by simp
qed

lemma do_call_sent:
  "fst (do_call store c) \<Longrightarrow>
     snd (do_call store c) (c_client c) = Some (c_now c, c_cta c, c_product c)"
  by (auto simp: do_call_def can_send_def split: option.splits prod.splits if_splits)

lemma do_call_too_early:
  "store (c_client c) = Some (ts, x, p) \<Longrightarrow> c_now c - ts < real_of_int (c_hours c * 3600)
     \<Longrightarrow> \<not> fst (do_call store c)"
  by (simp add: do_call_def can_send_def)

lemma do_call_same_cta:
  "store (c_client c) = Some (ts, x, p) \<Longrightarrow> py_lower (py_strip (c_cta c)) = py_lower (py_strip x)
     \<Longrightarrow> \<not> fst (do_call store c)"
  by (simp add: do_call_def can_send_def)

text \<open>
  C10. After a call that was answered True (a permitted send), run any further calls
  \<open>mid\<close>, for any clients, none of them earlier than the permitted one. Then a call \<open>c1\<close>
  for the same client is answered False when it comes within its cooldown
  (\<open>min_hours\<close> hours) of the permitted send; and it is answered False, at any time, when
  the permitted send is still the client's last one and \<open>c1\<close> carries the same CTA up to
  surrounding white space and letter case.
\<close>

theorem can_send_never_too_close_nor_repeated:
  assumes "fst (do_call s0 c0)"
    and "c_client c1 = c_client c0"
  shows "((\<forall>c \<in> set mid. c_now c0 \<le> c_now c) \<and>
          c_now c1 - c_now c0 < real_of_int (c_hours c1 * 3600)
            \<longrightarrow> \<not> fst (do_call (run_calls (snd (do_call s0 c0)) mid) c1))
       \<and> (no_send_to (c_client c0) (snd (do_call s0 c0)) mid \<and>
          py_lower (py_strip (c_cta c1)) = py_lower (py_strip (c_cta c0))
            \<longrightarrow> \<not> fst (do_call (run_calls (snd (do_call s0 c0)) mid) c1))"
proof (intro conjI impI)
  let ?s1 = "snd (do_call s0 c0)"
  have sent: "?s1 (c_client c0) = Some (c_now c0, c_cta c0, c_product c0)"
    using assms(1) by (rule do_call_sent)
  {
    assume h: "(\<forall>c \<in> set mid. c_now c0 \<le> c_now c) \<and>
               c_now c1 - c_now c0 < real_of_int (c_hours c1 * 3600)"
    from h have "\<forall>c \<in> set mid. c_now c0 \<le> c_now c" by simp
    with sent have "\<exists>ts x p. run_calls ?s1 mid (c_client c0) = Some (ts, x, p) \<and> c_now c0 \<le> ts"
      by (rule run_calls_stamp[where ts = "c_now c0", OF _ order_refl])
    then obtain ts x p where e: "run_calls ?s1 mid (c_client c0) = Some (ts, x, p)"
      and t: "c_now c0 \<le> ts" by blast
    from h t have "c_now c1 - ts < real_of_int (c_hours c1 * 3600)" by linarith
    with e assms(2) show "\<not> fst (do_call (run_calls ?s1 mid) c1)"
      using do_call_too_early[of "run_calls ?s1 mid" c1 ts x p] by simp
  }
  {
    assume h: "no_send_to (c_client c0) ?s1 mid \<and>
               py_lower (py_strip (c_cta c1)) = py_lower (py_strip (c_cta c0))"
    then have "run_calls ?s1 mid (c_client c0) = Some (c_now c0, c_cta c0, c_product c0)"
      using run_calls_kept[of "c_client c0" ?s1 mid] sent by simp
    with h assms(2) show "\<not> fst (do_call (run_calls ?s1 mid) c1)"
      using do_call_same_cta[of "run_calls ?s1 mid" c1 "c_now c0" "c_cta c0" "c_product c0"]
      by simp
  }
qed

theorem can_send_gate_witness:
  "fst (do_call Map.empty \<lparr>c_now = 0, c_client = 7, c_cta = [79, 75], c_product = [], c_hours = 48\<rparr>)
   \<and> list_all (\<lambda>c. (0::real) \<le> c_now c)
        [\<lparr>c_now = 10, c_client = 8, c_cta = [79, 75], c_product = [], c_hours = 48\<rparr>,
         \<lparr>c_now = 3600, c_client = 7, c_cta = [71, 79], c_product = [], c_hours = 48\<rparr>]
   \<and> (7200 :: real) - 0 < real_of_int (48 * 3600)
   \<and> no_send_to 7
        (snd (do_call Map.empty \<lparr>c_now = 0, c_client = 7, c_cta = [79, 75], c_product = [], c_hours = 48\<rparr>))
        [\<lparr>c_now = 10, c_client = 8, c_cta = [79, 75], c_product = [], c_hours = 48\<rparr>,
         \<lparr>c_now = 3600, c_client = 7, c_cta = [71, 79], c_product = [], c_hours = 48\<rparr>]
   \<and> py_lower (py_strip [32, 111, 107, 32]) = py_lower (py_strip [79, 75])
   \<and> \<not> fst (do_call
        (run_calls
          (snd (do_call Map.empty \<lparr>c_now = 0, c_client = 7, c_cta = [79, 75], c_product = [], c_hours = 48\<rparr>))
          [\<lparr>c_now = 10, c_client = 8, c_cta = [79, 75], c_product = [], c_hours = 48\<rparr>,
           \<lparr>c_now = 3600, c_client = 7, c_cta = [71, 79], c_product = [], c_hours = 48\<rparr>])
        \<lparr>c_now = 7200, c_client = 7, c_cta = [32, 111, 107, 32], c_product = [], c_hours = 48\<rparr>)"
  using can_send_never_too_close_nor_repeated
    [of Map.empty
        "\<lparr>c_now = 0, c_client = 7, c_cta = [79, 75], c_product = [], c_hours = 48\<rparr>"
        "\<lparr>c_now = 7200, c_client = 7, c_cta = [32, 111, 107, 32], c_product = [], c_hours = 48\<rparr>"
        "[\<lparr>c_now = 10, c_client = 8, c_cta = [79, 75], c_product = [], c_hours = 48\<rparr>,
          \<lparr>c_now = 3600, c_client = 7, c_cta = [71, 79], c_product = [], c_hours = 48\<rparr>]"]
  by (simp add: do_call_def can_send_def no_send_to_def py_lower_def py_strip_def
        rstrip_by_def lstrip_by_def is_space_def lower_cp_def)

section \<open>Properties of the scorer\<close>

lemma cap_nonneg: "0 \<le> c \<Longrightarrow> 0 \<le> cap v c"
  by (simp add: cap_def)

lemma benefit_travel_nonneg: "0 \<le> benefit_travel x"
  by (simp add: benefit_travel_def cap_nonneg CFG_def)

lemma benefit_premium_nonneg: "0 \<le> benefit_premium b s p a t"
  by (simp add: benefit_premium_def Let_def cap_nonneg CFG_def add_nonneg_nonneg)

lemma benefit_credit_card_nonneg: "0 \<le> benefit_credit_card x y"
  by (simp add: benefit_credit_card_def Let_def cap_nonneg CFG_def)

lemma benefit_fx_nonneg: "0 \<le> benefit_fx x"
  by (simp add: benefit_fx_def CFG_def)

lemma benefit_cash_loan_nonneg: "0 \<le> benefit_cash_loan r s"
  by (simp add: benefit_cash_loan_def)

lemma benefit_deposit_savings_nonneg: "0 \<le> benefit_deposit_savings x"
  by (simp add: benefit_deposit_savings_def CFG_def)

lemma benefit_deposit_accum_nonneg: "0 \<le> benefit_deposit_accum x"
  by (simp add: benefit_deposit_accum_def CFG_def)

lemma benefit_deposit_multi_nonneg: "0 \<le> benefit_deposit_multi x y"
  by (simp add: benefit_deposit_multi_def CFG_def add_nonneg_nonneg)

lemma benefit_invest_nonneg: "0 \<le> benefit_invest x"
  by (simp add: benefit_invest_def CFG_def)

lemma benefit_gold_nonneg: "0 \<le> benefit_gold x"
  by (simp add: benefit_gold_def CFG_def)

lemmas benefit_nonneg =
  benefit_travel_nonneg benefit_premium_nonneg benefit_credit_card_nonneg benefit_fx_nonneg
  benefit_cash_loan_nonneg benefit_deposit_savings_nonneg benefit_deposit_accum_nonneg
  benefit_deposit_multi_nonneg benefit_invest_nonneg benefit_gold_nonneg

text \<open>
  C2. For every feature record whose numeric inputs are non-negative and every non-negative
  average balance, each of the ten benefit functions returns a value \<open>\<ge> 0\<close>, and so does
  every entry of the score map that \<open>score_products\<close> returns.
\<close>

theorem all_scores_nonnegative:
  assumes "0 \<le> TRAVEL_SPEND f" and "0 \<le> PREMIUM_SPEND f" and "0 \<le> ONLINE_SPEND f"
    and "0 \<le> TOTAL_SPEND f" and "0 \<le> FAV_SPEND_SUM f" and "0 \<le> ATM_CNT f"
    and "0 \<le> TRANSFER_CNT f" and "0 \<le> SHORTFALL f" and "0 \<le> FX_TURNOVER f"
    and "0 \<le> FREE_BAL_3M f" and "0 \<le> avg_balance"
  shows "0 \<le> benefit_travel (TRAVEL_SPEND f)
       \<and> 0 \<le> benefit_premium avg_balance (TOTAL_SPEND f) (PREMIUM_SPEND f) (ATM_CNT f) (TRANSFER_CNT f)
       \<and> 0 \<le> benefit_credit_card (FAV_SPEND_SUM f) (ONLINE_SPEND f)
       \<and> 0 \<le> benefit_fx (FX_TURNOVER f)
       \<and> 0 \<le> benefit_cash_loan (NEED_RATIO f) (SHORTFALL f)
       \<and> 0 \<le> benefit_deposit_multi (FREE_BAL_3M f) (FX_TURNOVER f)
       \<and> 0 \<le> benefit_deposit_savings (FREE_BAL_3M f)
       \<and> 0 \<le> benefit_deposit_accum (FREE_BAL_3M f)
       \<and> 0 \<le> benefit_invest (FREE_BAL_3M f)
       \<and> 0 \<le> benefit_gold (FREE_BAL_3M f)
       \<and> list_all (\<lambda>kv. 0 \<le> snd kv) (snd (snd (score_products f avg_balance)))"
  by (simp add: benefit_nonneg score_products_def product_scores_def Let_def)

lemma sort_desc_mset: "mset (sort_desc xs) = mset xs"
  by (simp add: sort_desc_def)

lemma sort_desc_sorted: "sorted_wrt (\<lambda>x y. snd y \<le> snd x) (sort_desc xs)"
proof -
  have "sorted (map (\<lambda>kv. - snd kv) (sort_desc xs))"
    unfolding sort_desc_def by (rule sorted_sort_key)
  then show ?thesis by (simp add: sorted_map)
qed

lemma sort_desc_stable:
  "filter (\<lambda>kv. snd kv = v) (sort_desc xs) = filter (\<lambda>kv. snd kv = v) xs"
proof -
  have "filter (\<lambda>kv. - snd kv = - v) (sort_key (\<lambda>kv. - snd kv) xs)
      = filter (\<lambda>kv. - snd kv = - v) xs"
    by (rule sort_key_stable)
  then show ?thesis by (simp add: sort_desc_def)
qed

lemma sort_desc_length: "length (sort_desc xs) = length xs"
  by (simp add: sort_desc_def)

lemma sort_desc_hd_max:
  assumes "xs \<noteq> []"
  shows "list_all (\<lambda>kv. snd kv \<le> snd (hd (sort_desc xs))) xs"
proof -
  have ne: "sort_desc xs \<noteq> []" using assms sort_desc_length[of xs] by auto
  then obtain y ys where e: "sort_desc xs = y # ys" by (cases "sort_desc xs") auto
  have "\<forall>z \<in> set ys. snd z \<le> snd y"
    using sort_desc_sorted[of xs] e by simp
  then have "\<forall>z \<in> set (sort_desc xs). snd z \<le> snd y" using e by auto
  moreover have "set (sort_desc xs) = set xs"
    using sort_desc_mset[of xs] by (metis set_mset_mset)
  ultimately have "\<forall>z \<in> set xs. snd z \<le> snd y" by simp
  then show ?thesis using e by (simp add: list_all_iff)
qed

text \<open>
  C7. \<open>score_products\<close> ranks by a stable descending sort: its top-4 is the first four
  entries of a ranking that is a rearrangement of the score map, has its scores in
  descending order and keeps entries of equal score in the order of the score map, which is
  the order of the catalogue. \<open>best\<close> is the first product of that ranking, never the null
  sentinel (the catalogue has ten entries), and no product scores higher. The result is a
  function of the feature record and the balance alone, so scoring the same features again
  gives the same top-4.
\<close>

theorem ranking_is_stable_descending:
  "(\<exists>ranking.
      fst (snd (score_products f b)) = take 4 ranking
      \<and> mset ranking = mset (product_scores f b)
      \<and> sorted_wrt (\<lambda>x y. snd y \<le> snd x) ranking
      \<and> (\<forall>v. filter (\<lambda>kv. snd kv = v) ranking = filter (\<lambda>kv. snd kv = v) (product_scores f b))
      \<and> fst (score_products f b) = Some (fst (hd ranking))
      \<and> list_all (\<lambda>kv. snd kv \<le> snd (hd ranking)) (product_scores f b))
   \<and> map fst (product_scores f b) = PRODUCTS
   \<and> snd (snd (score_products f b)) = product_scores f b
   \<and> length (fst (snd (score_products f b))) = 4"
proof -
  let ?r = "sort_desc (product_scores f b)"
  have len: "length ?r = 10" by (simp add: sort_desc_length product_scores_def)
  then obtain y ys where e: "?r = y # ys" by (cases ?r) auto
  have ne: "product_scores f b \<noteq> []" by (simp add: product_scores_def)
  have best: "fst (score_products f b) = Some (fst (hd ?r))"
    using e by (simp add: score_products_def Let_def)
  have "fst (snd (score_products f b)) = take 4 ?r"
    by (simp add: score_products_def Let_def)
  with best sort_desc_mset sort_desc_sorted sort_desc_stable sort_desc_hd_max[OF ne]
  have "\<exists>ranking.
      fst (snd (score_products f b)) = take 4 ranking
      \<and> mset ranking = mset (product_scores f b)
      \<and> sorted_wrt (\<lambda>x y. snd y \<le> snd x) ranking
      \<and> (\<forall>v. filter (\<lambda>kv. snd kv = v) ranking = filter (\<lambda>kv. snd kv = v) (product_scores f b))
      \<and> fst (score_products f b) = Some (fst (hd ranking))
      \<and> list_all (\<lambda>kv. snd kv \<le> snd (hd ranking)) (product_scores f b)"
    by blast
  moreover have "map fst (product_scores f b) = PRODUCTS"
    by (simp add: product_scores_def PRODUCTS_def)
  moreover have "snd (snd (score_products f b)) = product_scores f b"
    by (simp add: score_products_def Let_def)
  moreover have "length (fst (snd (score_products f b))) = 4"
    using len by (simp add: score_products_def Let_def)
  ultimately show ?thesis by blast
qed

lemma filter_none: "(\<forall>r \<in> set xs. \<not> P r) \<Longrightarrow> filter P xs = []"
  by (induction xs) auto

lemma fl_at:
  assumes "2 powr of_int p \<le> \<bar>x\<bar>" and "\<bar>x\<bar> < 2 powr of_int (p + 1)"
  shows "fl x = of_int (round_even (x / 2 powr of_int (p - 52))) * 2 powr of_int (p - 52)"
proof -
  have "0 < (2::real) powr of_int p" by simp
  with assms(1) have pos: "0 < \<bar>x\<bar>" by linarith
  then have nz: "x \<noteq> 0" by auto
  have "\<lfloor>log 2 \<bar>x\<bar>\<rfloor> = p"
    using assms pos by (simp add: floor_log_eq_powr_iff)
  then show ?thesis using nz by (simp add: fl_def Let_def)
qed

lemma fl_quarter: "fl (x / 4) = fl x / 4"
proof (cases "x = 0")
  case True
  then show ?thesis by (simp add: fl_def)
next
  case False
  define k where "k = \<lfloor>log 2 \<bar>x\<bar>\<rfloor>"
  have pos: "0 < \<bar>x\<bar>" using False by simp
  have b: "2 powr of_int k \<le> \<bar>x\<bar>" "\<bar>x\<bar> < 2 powr of_int (k + 1)"
    using floor_log_eq_powr_iff[of "\<bar>x\<bar>" 2 k] pos by (simp_all add: k_def)
  have four: "(2::real) powr 2 = 4" by simp
  have p2: "(2::real) powr of_int (k - 2) = 2 powr of_int k / 4"
    by (simp add: powr_diff)
  have p1: "(2::real) powr of_int (k - 2 + 1) = 2 powr of_int (k + 1) / 4"
  proof -
    have "real_of_int (k - 2 + 1) = real_of_int (k + 1) - 2" by simp
    then show ?thesis by (simp only: powr_diff four)
  qed
  have l: "2 powr of_int (k - 2) \<le> \<bar>x / 4\<bar>" using b(1) p2 by simp
  have u: "\<bar>x / 4\<bar> < 2 powr of_int (k - 2 + 1)" using b(2) p1 by simp
  have e: "(2::real) powr of_int (k - 2 - 52) = 2 powr of_int (k - 52) / 4"
  proof -
    have "real_of_int (k - 2 - 52) = real_of_int (k - 52) - 2" by simp
    then show ?thesis by (simp only: powr_diff four)
  qed
  have q: "x / 4 / (2 powr of_int (k - 52) / 4) = x / 2 powr of_int (k - 52)"
    by simp
  have "fl (x / 4) = of_int (round_even (x / 4 / 2 powr of_int (k - 2 - 52))) * 2 powr of_int (k - 2 - 52)"
    using l u by (rule fl_at)
  also have "\<dots> = of_int (round_even (x / 2 powr of_int (k - 52))) * (2 powr of_int (k - 52) / 4)"
    by (simp only: e q)
  also have "\<dots> = of_int (round_even (x / 2 powr of_int (k - 52))) * 2 powr of_int (k - 52) / 4"
    by simp
  also have "\<dots> = fl x / 4"
    by (simp only: fl_at[OF b])
  finally show ?thesis .
qed

lemma fl_at_nat:
  assumes "2 ^ 52 \<le> \<bar>x\<bar> * 2 ^ k" and "\<bar>x\<bar> * 2 ^ k < 2 ^ 53"
  shows "fl x = of_int (round_even (x * 2 ^ k)) / 2 ^ k"
proof -
  have pk: "(2::real) powr of_int (52 - int k) = 2 ^ 52 / 2 ^ k"
  proof -
    have "real_of_int (52 - int k) = 52 - real k" by simp
    then have "(2::real) powr of_int (52 - int k) = 2 powr 52 / 2 powr real k"
      by (simp only: powr_diff)
    then show ?thesis by (simp add: powr_realpow)
  qed
  have pk1: "(2::real) powr of_int (52 - int k + 1) = 2 ^ 53 / 2 ^ k"
  proof -
    have "real_of_int (52 - int k + 1) = 53 - real k" by simp
    then have "(2::real) powr of_int (52 - int k + 1) = 2 powr 53 / 2 powr real k"
      by (simp only: powr_diff)
    then show ?thesis by (simp add: powr_realpow)
  qed
  have pe: "(2::real) powr of_int (52 - int k - 52) = 1 / 2 ^ k"
  proof -
    have "real_of_int (52 - int k - 52) = 0 - real k" by simp
    then have "(2::real) powr of_int (52 - int k - 52) = 2 powr 0 / 2 powr real k"
      by (simp only: powr_diff)
    then show ?thesis by (simp add: powr_realpow)
  qed
  have l: "2 powr of_int (52 - int k) \<le> \<bar>x\<bar>"
    unfolding pk using assms(1) by (simp add: field_simps)
  have u: "\<bar>x\<bar> < 2 powr of_int (52 - int k + 1)"
    unfolding pk1 using assms(2) by (simp add: field_simps)
  have "fl x = of_int (round_even (x / 2 powr of_int (52 - int k - 52)))
                 * 2 powr of_int (52 - int k - 52)"
    using l u by (rule fl_at)
  then show ?thesis unfolding pe by simp
qed

lemma free_bal_double:
  "FREE_BAL_3M (compute_features_for_client tx tr avg period) = fl (fl (fl avg * 3) / 12)"
  by (simp add: compute_features_for_client_def Let_def)

lemma quarter_exact:
  assumes "fl avg = avg" and "fl (avg * 3) = avg * 3"
  shows "fl (fl (fl avg * 3) / 12) = avg * 0.25"
proof -
  have "fl (fl (fl avg * 3) / 12) = fl (avg / 4)" using assms by simp
  also have "\<dots> = avg / 4" using fl_quarter[of avg] assms(1) by simp
  finally show ?thesis by simp
qed

text \<open>
  C6, as amended. When no row of either table has its date in the window, the feature
  extractor returns the record below: every sum and count is zero and there is no favourite
  category; the inflow/outflow ratio is the positive-infinity sentinel (the inflow is
  zero), not zero; the disposable balance is \<open>float(avg_balance) * 3.0 / 12.0\<close> as double
  arithmetic computes it, the product and the quotient each rounded. For all tables and
  windows the disposable balance is that double. It is \<open>avg_balance * 0.25\<close> exactly
  when \<open>avg_balance\<close> is a double whose triple is a double too; otherwise the two
  roundings can leave it one unit in the last place away.
\<close>

theorem empty_window_features:
  assumes "\<forall>r \<in> set tx. \<not> in_period (fst period) (snd period) (tx_date r)"
    and "\<forall>r \<in> set tr. \<not> in_period (fst period) (snd period) (tr_date r)"
  shows "compute_features_for_client tx tr avg period =
           \<lparr> TOTAL_SPEND = 0, TRAVEL_SPEND = 0, PREMIUM_SPEND = 0, ONLINE_SPEND = 0,
             FAV_SPEND_SUM = 0, ATM_CNT = 0, TRANSFER_CNT = 0, NEED_RATIO = PosInf,
             SHORTFALL = 0, FX_TURNOVER = 0, FREE_BAL_3M = fl (fl (fl avg * 3) / 12),
             FAV_CATS = [] \<rparr>
       \<and> FREE_BAL_3M (compute_features_for_client tx' tr' avg period') = fl (fl (fl avg * 3) / 12)
       \<and> (fl avg = avg \<and> fl (avg * 3) = avg * 3
            \<longrightarrow> FREE_BAL_3M (compute_features_for_client tx' tr' avg period') = avg * 0.25)"
proof -
  have a: "filter (\<lambda>r. in_period (fst period) (snd period) (tx_date r)) tx = []"
    using assms(1) by (rule filter_none)
  have b: "filter (\<lambda>r. in_period (fst period) (snd period) (tr_date r)) tr = []"
    using assms(2) by (rule filter_none)
  have 1: "compute_features_for_client tx tr avg period =
           \<lparr> TOTAL_SPEND = 0, TRAVEL_SPEND = 0, PREMIUM_SPEND = 0, ONLINE_SPEND = 0,
             FAV_SPEND_SUM = 0, ATM_CNT = 0, TRANSFER_CNT = 0, NEED_RATIO = PosInf,
             SHORTFALL = 0, FX_TURNOVER = 0, FREE_BAL_3M = fl (fl (fl avg * 3) / 12),
             FAV_CATS = [] \<rparr>"
    apply (simp only: compute_features_for_client_def Let_def a b)
    apply (simp add: top_categories_def group_sums_def group_keys_def sort_desc_def)
    done
  show ?thesis
    using 1 free_bal_double quarter_exact by simp
qed

lemma fl_1000: "fl 1000 = 1000"
  using fl_at_nat[of 1000 43] by (simp add: round_even_def Let_def)

lemma fl_3000: "fl 3000 = 3000"
  using fl_at_nat[of 3000 41] by (simp add: round_even_def Let_def)

lemma fl_a: "fl (3521955646092083 / 2 ^ 45) = 3521955646092083 / 2 ^ 45"
  using fl_at_nat[of "3521955646092083 / 2 ^ 45" 46] by (simp add: round_even_def Let_def)

lemma fl_3a: "fl (3521955646092083 / 2 ^ 45 * 3) = 1320733367284531 / 2 ^ 42"
  using fl_at_nat[of "3521955646092083 / 2 ^ 45 * 3" 44] by (simp add: round_even_def Let_def)

lemma fl_3a_12: "fl (1320733367284531 / 2 ^ 42 / 12) = 7043911292184165 / 2 ^ 48"
  using fl_at_nat[of "1320733367284531 / 2 ^ 42 / 12" 48] by (simp add: round_even_def Let_def)

text \<open>
  C6 as stated fails twice. With both tables empty the ratio feature is not zero. And for
  the balance 100.1 (the double \<open>3521955646092083 / 2^45\<close>) the disposable balance is
  25.024999999999995, the double below \<open>100.1 * 0.25 = 25.025\<close>.
\<close>

theorem empty_tables_need_ratio_not_zero:
  "NEED_RATIO (compute_features_for_client [] [] 1000 (0, 1)) \<noteq> Fin 0
   \<and> FREE_BAL_3M (compute_features_for_client [] [] (3521955646092083 / 2 ^ 45) (0, 1))
       = 7043911292184165 / 2 ^ 48
   \<and> (3521955646092083 / 2 ^ 45) * (0.25 :: real) = 7043911292184166 / 2 ^ 48
   \<and> FREE_BAL_3M (compute_features_for_client [] [] (3521955646092083 / 2 ^ 45) (0, 1))
       \<noteq> (3521955646092083 / 2 ^ 45) * 0.25"
proof -
  have n: "NEED_RATIO (compute_features_for_client [] [] 1000 (0, 1)) \<noteq> Fin 0"
    by (simp add: compute_features_for_client_def Let_def)
  have f: "FREE_BAL_3M (compute_features_for_client [] [] (3521955646092083 / 2 ^ 45) (0, 1))
       = 7043911292184165 / 2 ^ 48"
    by (simp only: free_bal_double fl_a fl_3a fl_3a_12)
  have q: "(3521955646092083 / 2 ^ 45) * (0.25 :: real) = 7043911292184166 / 2 ^ 48"
    by simp
  have "(7043911292184165 / 2 ^ 48 :: real) \<noteq> 7043911292184166 / 2 ^ 48" by simp
  with n f q show ?thesis by (simp only: simp_thms)
qed

theorem all_scores_nonnegative_witness:
  "(0::real) \<le> 50000 \<and> (0::real) \<le> 20000 \<and> (0::real) \<le> 10000 \<and> (0::real) \<le> 300000
   \<and> (0::real) \<le> 120000 \<and> (0::int) \<le> 3 \<and> (0::int) \<le> 5 \<and> (0::real) \<le> 40000
   \<and> (0::real) \<le> 70000 \<and> (0::real) \<le> 625000 \<and> (0::real) \<le> 2500000
   \<and> benefit_travel 50000 = 2000
   \<and> list_all (\<lambda>kv. 0 \<le> snd kv)
        (snd (snd (score_products
           \<lparr> TOTAL_SPEND = 300000, TRAVEL_SPEND = 50000, PREMIUM_SPEND = 20000,
             ONLINE_SPEND = 10000, FAV_SPEND_SUM = 120000, ATM_CNT = 3, TRANSFER_CNT = 5,
             NEED_RATIO = PosInf, SHORTFALL = 40000, FX_TURNOVER = 70000,
             FREE_BAL_3M = 625000, FAV_CATS = [] \<rparr> 2500000)))"
  using all_scores_nonnegative
    [of "\<lparr> TOTAL_SPEND = 300000, TRAVEL_SPEND = 50000, PREMIUM_SPEND = 20000,
            ONLINE_SPEND = 10000, FAV_SPEND_SUM = 120000, ATM_CNT = 3, TRANSFER_CNT = 5,
            NEED_RATIO = PosInf, SHORTFALL = 40000, FX_TURNOVER = 70000,
            FREE_BAL_3M = 625000, FAV_CATS = [] \<rparr>" 2500000]
  by (simp add: benefit_travel_def cap_def CFG_def)

theorem empty_window_features_witness:
  "\<not> in_period 10 20 (tx_date \<lparr>tx_date = Some 5, tx_category = Some [1058, 1072, 1082, 1089, 1080], tx_amount = 900\<rparr>)
   \<and> \<not> in_period 10 20 (tr_date \<lparr>tr_date = None, tr_type = Some (ascii ''fx_buy''), tr_direction = Some (ascii ''out''), tr_amount = 70\<rparr>)
   \<and> fl 1000 = 1000 \<and> fl (1000 * 3) = 1000 * 3
   \<and> compute_features_for_client
        [\<lparr>tx_date = Some 5, tx_category = Some [1058, 1072, 1082, 1089, 1080], tx_amount = 900\<rparr>]
        [\<lparr>tr_date = None, tr_type = Some (ascii ''fx_buy''), tr_direction = Some (ascii ''out''), tr_amount = 70\<rparr>]
        1000 (10, 20)
       = \<lparr> TOTAL_SPEND = 0, TRAVEL_SPEND = 0, PREMIUM_SPEND = 0, ONLINE_SPEND = 0,
           FAV_SPEND_SUM = 0, ATM_CNT = 0, TRANSFER_CNT = 0, NEED_RATIO = PosInf,
           SHORTFALL = 0, FX_TURNOVER = 0, FREE_BAL_3M = 250, FAV_CATS = [] \<rparr>
   \<and> FREE_BAL_3M (compute_features_for_client
        [\<lparr>tx_date = Some 5, tx_category = Some [1058, 1072, 1082, 1089, 1080], tx_amount = 900\<rparr>]
        [] 1000 (0, 10)) = 250"
  using empty_window_features
    [where tx = "[\<lparr>tx_date = Some 5, tx_category = Some [1058, 1072, 1082, 1089, 1080], tx_amount = 900\<rparr>]"
       and tr = "[\<lparr>tr_date = None, tr_type = Some (ascii ''fx_buy''), tr_direction = Some (ascii ''out''), tr_amount = 70\<rparr>]"
       and avg = 1000 and period = "(10, 20)"
       and tx' = "[\<lparr>tx_date = Some 5, tx_category = Some [1058, 1072, 1082, 1089, 1080], tx_amount = 900\<rparr>]"
       and tr' = "[]" and period' = "(0, 10)"]
    fl_1000 fl_3000
  by (simp add: in_period_def)

section \<open>Properties of the ingestion\<close>

lemma digits_val_nonneg: "0 \<le> real (digits_val ds)"
  by simp



lemma amount_clean_chars: "set (amount_clean s) \<subseteq> {c. is_digit c \<or> c = 46 \<or> c = 45}"
  by (auto simp: amount_clean_def)











lemma mean_gt_half:
  "gt_nan (mean bs) 0.5 \<longleftrightarrow> length bs < 2 * length (filter id bs)"
proof (cases "bs = []")
  case True
  then show ?thesis by (simp add: mean_def gt_nan_def)
next
  case False
  then have "0 < real (length bs)" by simp
  then have "(0.5 < real (length (filter id bs)) / real (length bs))
      \<longleftrightarrow> (real (length bs) < 2 * real (length (filter id bs)))"
    by (simp add: field_simps)
  also have "\<dots> \<longleftrightarrow> length bs < 2 * length (filter id bs)"
    by (metis of_nat_less_iff of_nat_mult of_nat_numeral)
  finally show ?thesis using False by (simp add: mean_def gt_nan_def)
qed

lemma mean_gt_3_10:
  "gt_nan (mean bs) 0.3 \<longleftrightarrow> 3 * length bs < 10 * length (filter id bs)"
proof (cases "bs = []")
  case True
  then show ?thesis by (simp add: mean_def gt_nan_def)
next
  case False
  then have "0 < real (length bs)" by simp
  then have "(0.3 < real (length (filter id bs)) / real (length bs))
      \<longleftrightarrow> (3 * real (length bs) < 10 * real (length (filter id bs)))"
    by (simp add: field_simps)
  also have "\<dots> \<longleftrightarrow> 3 * length bs < 10 * length (filter id bs)"
    by (metis of_nat_less_iff of_nat_mult of_nat_numeral)
  finally show ?thesis using False by (simp add: mean_def gt_nan_def)
qed

lemma mean_ge_half:
  "ge_nan (mean bs) 0.5 \<longleftrightarrow> bs \<noteq> [] \<and> length bs \<le> 2 * length (filter id bs)"
proof (cases "bs = []")
  case True
  then show ?thesis by (simp add: mean_def ge_nan_def)
next
  case False
  then have "0 < real (length bs)" by simp
  then have "(0.5 \<le> real (length (filter id bs)) / real (length bs))
      \<longleftrightarrow> (real (length bs) \<le> 2 * real (length (filter id bs)))"
    by (simp add: field_simps)
  also have "\<dots> \<longleftrightarrow> length bs \<le> 2 * length (filter id bs)"
    by (metis of_nat_le_iff of_nat_mult of_nat_numeral)
  finally show ?thesis using False by (simp add: mean_def ge_nan_def)
qed

lemma filter_id_map: "filter id (map f xs) = map f (filter f xs)"
  by (induction xs) auto

text \<open>
  C5, as amended. The two date parsers of the program differ. \<open>_to_datetime_safe\<close>
  (build_data.py) parses the column unconstrained first and returns the day-first parse of
  the whole column exactly when more than half of the values failed and more than 30% of
  the raw strings match the dotted pattern; otherwise it returns the first parse.
  \<open>_parse_dates_series\<close> (utils.py) parses once: day-first when the column is not empty
  and at least half of the raw strings match the pattern, unconstrained otherwise. Both
  return a column of timestamps in which a value that did not parse is the null
  timestamp; neither has an error exit.
\<close>

theorem date_parsers:
  "to_datetime_safe P s =
     (if length (P False s) < 2 * length (filter (\<lambda>d. d = None) (P False s))
         \<and> 3 * length s < 10 * length (filter contains_dmy s)
      then P True s else P False s)
   \<and> parse_dates_series P s =
     (if s \<noteq> [] \<and> length s \<le> 2 * length (filter contains_dmy s)
      then P True s else P False s)"
  unfolding to_datetime_safe_def parse_dates_series_def Let_def mean_gt_half mean_gt_3_10
    mean_ge_half
  by (simp add: filter_id_map)

text \<open>
  C5 as stated fails for \<open>_parse_dates_series\<close>: on the one-row column \<open>01.02.2024\<close> the
  unconstrained parse succeeds (2 January), no value has failed, and yet the parser
  returns the day-first parse (1 February).
\<close>

theorem parse_dates_series_no_first_attempt:
  "\<not> gt_nan (mean (map (\<lambda>d. d = None)
         (dotted_parser False [[48, 49, 46, 48, 50, 46, 50, 48, 50, 52]]))) 0.5
   \<and> dotted_parser False [[48, 49, 46, 48, 50, 46, 50, 48, 50, 52]] = [Some 20240102]
   \<and> parse_dates_series dotted_parser [[48, 49, 46, 48, 50, 46, 50, 48, 50, 52]] = [Some 20240201]
   \<and> to_datetime_safe dotted_parser [[48, 49, 46, 48, 50, 46, 50, 48, 50, 52]] = [Some 20240102]"
  by (simp add: parse_dates_series_def to_datetime_safe_def Let_def mean_def gt_nan_def ge_nan_def
      contains_dmy_def dmy_at_def word_boundary_def digits_at_def char_at_def is_digit_def
      is_word_def dotted_parser_def read_dotted_def split_dots_def digits_val_def upt_rec)

lemma astype_Int64_length: "astype_Int64 vals = Inr codes \<Longrightarrow> length codes = length vals"
  by (auto simp: astype_Int64_def split: if_splits)

lemma build_part_no_null:
  "build_part P num df = Inr rows \<Longrightarrow> list_all (\<lambda>r. client_code r \<noteq> None) rows"
  by (auto simp: build_part_def Let_def dropna_client_code_def list_all_iff split: sum.splits)

text \<open>
  C9 at the failing input: \<open>read_data\<close> (utils.py) casts the client codes and keeps every
  row. A table whose first row has the client code \<open>abc\<close> comes back with that row in it,
  its \<open>client_code\<close> null; the batch ingestion of build_data.py drops the row.
\<close>

theorem read_data_keeps_null_client_code:
  "read_table dotted_parser to_numeric
     [\<lparr> raw_date = [48, 49, 46, 48, 50, 46, 50, 48, 50, 52], raw_amount = [49, 48, 48],
        raw_client_code = [97, 98, 99], raw_rest = () \<rparr>,
      \<lparr> raw_date = [48, 49, 46, 48, 50, 46, 50, 48, 50, 52], raw_amount = [50, 53],
        raw_client_code = [55], raw_rest = () \<rparr>]
   = Inr [\<lparr> date = Some 20240201, amount = 100, client_code = None, rest = () \<rparr>,
          \<lparr> date = Some 20240201, amount = 25, client_code = Some 7, rest = () \<rparr>]
   \<and> build_part dotted_parser to_numeric
     [\<lparr> raw_date = [48, 49, 46, 48, 50, 46, 50, 48, 50, 52], raw_amount = [49, 48, 48],
        raw_client_code = [97, 98, 99], raw_rest = () \<rparr>,
      \<lparr> raw_date = [48, 49, 46, 48, 50, 46, 50, 48, 50, 52], raw_amount = [50, 53],
        raw_client_code = [55], raw_rest = () \<rparr>]
   = Inr [\<lparr> date = Some 20240102, amount = 25, client_code = Some 7, rest = () \<rparr>]"
  by (simp add: read_table_def build_part_def Let_def to_int64_nullable_def cast_client_code_def
      astype_Int64_def assemble_def dropna_client_code_def
      parse_dates_series_def to_datetime_safe_def mean_def gt_nan_def ge_nan_def
      contains_dmy_def dmy_at_def word_boundary_def digits_at_def char_at_def is_digit_def
      is_word_def dotted_parser_def read_dotted_def split_dots_def digits_val_def upt_rec
      parse_amount_series_def to_amount_safe_def amount_clean_def to_numeric_def
      parse_unsigned_def fillna0_def)

end
